theory Spec2Isabelle
  imports Main "HOL-Library.AList"
begin

section \<open>Python values, errors and the libraries bp\_lib.py calls\<close>

text \<open>
  bp\_lib.py is Python 2 code.  A byte string (\<open>str\<close>) is a list of 8-bit characters, a
  \<open>unicode\<close> string is a list of code points.  Dictionary keys are text: a key is the list
  of its code points, so that the byte-string key \<open>'posData'\<close> and the unicode key
  \<open>u'posData'\<close> are the same key, as they are for a Python 2 dictionary.  Dictionaries are
  association lists without repeated keys.  Floating point numbers and sets are not
  values of the model.
\<close>

type_synonym ustring = "nat list"

datatype pyval =
    PNone
  | PBool bool
  | PInt int
  | PStr string
  | PUni ustring
  | PList "pyval list"
  | PTuple "pyval list"
  | PDict "(ustring \<times> pyval) list"

type_synonym pydict = "(ustring \<times> pyval) list"

datatype error =
    KeyError
  | TypeError
  | ValueError
  | AttributeError
  | UnicodeEncodeError
  | UnicodeDecodeError
  | IOError
  | URLError

text \<open>The code points of an ASCII literal of the source, used as a dictionary key.\<close>

definition utext :: "string \<Rightarrow> ustring" where
  "utext s = map of_char s"

definition is_ascii :: "ustring \<Rightarrow> bool" where
  "is_ascii u = list_all (\<lambda>c. c < 128) u"

text \<open>Python 2 \<open>str(u)\<close> of a unicode string: the ASCII codec, which refuses code points
  from 128 on.\<close>

definition encode_ascii :: "ustring \<Rightarrow> error + string" where
  "encode_ascii u = (if is_ascii u then Inr (map char_of u) else Inl UnicodeEncodeError)"

text \<open>Truth value of a Python object, as \<open>if x:\<close> and \<open>not x\<close> take it.\<close>

fun truthy :: "pyval \<Rightarrow> bool" where
  "truthy PNone = False"
| "truthy (PBool b) = b"
| "truthy (PInt i) = (i \<noteq> 0)"
| "truthy (PStr s) = (s \<noteq> [])"
| "truthy (PUni u) = (u \<noteq> [])"
| "truthy (PList xs) = (xs \<noteq> [])"
| "truthy (PTuple xs) = (xs \<noteq> [])"
| "truthy (PDict d) = (d \<noteq> [])"

text \<open>\<open>v == s\<close> for a byte string \<open>s\<close>: a unicode string equals \<open>s\<close> when \<open>s\<close> decodes
  as ASCII to it, and a value that is no string differs from every string.\<close>

fun py_eq_str :: "pyval \<Rightarrow> string \<Rightarrow> bool" where
  "py_eq_str (PStr t) s = (t = s)"
| "py_eq_str (PUni u) s = (is_ascii (utext s) \<and> u = utext s)"
| "py_eq_str _ s = False"

text \<open>Dictionary operations: \<open>d[k]\<close>, \<open>k in d\<close>, \<open>d[k] = v\<close>, \<open>dict(items)\<close>.\<close>

definition dict_getitem :: "pydict \<Rightarrow> ustring \<Rightarrow> error + pyval" where
  "dict_getitem d k = (case map_of d k of None \<Rightarrow> Inl KeyError | Some v \<Rightarrow> Inr v)"

definition dict_contains :: "pydict \<Rightarrow> ustring \<Rightarrow> bool" where
  "dict_contains d k = (map_of d k \<noteq> None)"

definition dict_setitem :: "pydict \<Rightarrow> ustring \<Rightarrow> pyval \<Rightarrow> pydict" where
  "dict_setitem d k v = AList.update k v d"

definition dict_of_items :: "(ustring \<times> pyval) list \<Rightarrow> pydict" where
  "dict_of_items xs = foldl (\<lambda>d (k, v). dict_setitem d k v) [] xs"

subsection \<open>\<open>str.strip()\<close>\<close>

definition is_space :: "char \<Rightarrow> bool" where
  "is_space c = (c \<in> set [CHR 0x20, CHR 0x09, CHR 0x0A, CHR 0x0B, CHR 0x0C, CHR 0x0D])"

definition is_uspace :: "nat \<Rightarrow> bool" where
  "is_uspace c = ((9 \<le> c \<and> c \<le> 13) \<or> (28 \<le> c \<and> c \<le> 32) \<or> c = 133 \<or> c = 160
     \<or> c = 5760 \<or> c = 6158 \<or> (8192 \<le> c \<and> c \<le> 8202) \<or> c = 8232 \<or> c = 8233
     \<or> c = 8239 \<or> c = 8287 \<or> c = 12288)"

definition strip :: "string \<Rightarrow> string" where
  "strip s = rev (dropWhile is_space (rev (dropWhile is_space s)))"

definition ustrip :: "ustring \<Rightarrow> ustring" where
  "ustrip s = rev (dropWhile is_uspace (rev (dropWhile is_uspace s)))"

text \<open>\<open>x.strip()\<close>: only strings have the method.\<close>

fun py_strip :: "pyval \<Rightarrow> error + pyval" where
  "py_strip (PStr s) = Inr (PStr (strip s))"
| "py_strip (PUni u) = Inr (PUni (ustrip u))"
| "py_strip _ = Inl AttributeError"

subsection \<open>Base64 (\<open>binascii.b2a_base64\<close>, \<open>base64.b64encode\<close>)\<close>

definition b64_alphabet :: string where
  "b64_alphabet = ''ABCDEFGHIJKLMNOPQRSTUVWXYZabcdefghijklmnopqrstuvwxyz0123456789+/''"

definition b64_digit :: "nat \<Rightarrow> char" where
  "b64_digit i = b64_alphabet ! (i mod 64)"

fun b64_groups :: "nat list \<Rightarrow> string" where
  "b64_groups [] = []"
| "b64_groups [a] =
     [b64_digit (a div 4), b64_digit ((a mod 4) * 16), CHR ''='', CHR ''='']"
| "b64_groups [a, b] =
     [b64_digit (a div 4), b64_digit ((a mod 4) * 16 + b div 16),
      b64_digit ((b mod 16) * 4), CHR ''='']"
| "b64_groups (a # b # c # rest) =
     [b64_digit (a div 4), b64_digit ((a mod 4) * 16 + b div 16),
      b64_digit ((b mod 16) * 4 + c div 64), b64_digit (c mod 64)] @ b64_groups rest"

definition b64encode :: "string \<Rightarrow> string" where
  "b64encode s = b64_groups (map of_char s)"

text \<open>\<open>binascii.b2a_base64\<close> returns the encoding followed by a newline.\<close>

definition b2a_base64 :: "string \<Rightarrow> string" where
  "b2a_base64 s = b64encode s @ [CHR 0x0A]"

subsection \<open>The libraries and the outside world\<close>

text \<open>
  What bp\_lib.py takes from outside is the fields of a record: the digest of
  \<open>hmac.new(key, data, sha256)\<close> on byte strings, \<open>json.dumps\<close>, \<open>json.loads\<close>,
  \<open>urllib.urlencode\<close>, \<open>repr\<close> of a container, the body that the provider answers a
  request with (or the fault that \<open>opener.open\<close> raises), whether a file can be opened
  for appending, the text of \<open>time.strftime\<close> and the path of the module.  Every
  theorem holds for every such record.
\<close>

record request =
  req_url :: pyval
  req_headers :: "(string \<times> string) list"
  req_body :: "string option"

record extern =
  hmac_sha256 :: "string \<Rightarrow> string \<Rightarrow> string"
  json_dumps :: "pyval \<Rightarrow> error + string"
  json_loads :: "pyval \<Rightarrow> error + pyval"
  urlencode :: "pyval \<Rightarrow> error + string"
  py_repr :: "pyval \<Rightarrow> string"
  respond :: "request \<Rightarrow> error + string"
  can_append :: "pyval \<Rightarrow> bool"
  strftime :: string
  module_path :: string

text \<open>
  The state of the process: the dictionary \<open>bp_options.bpOptions\<close>, the other
  dictionary objects that the functions create and write to, the requests sent so far
  and the text appended to files so far.  A variable that holds a dictionary holds a
  reference to it, so that two variables can name one object.
\<close>

record world =
  bpOptions :: pydict
  objects :: "pydict list"
  sent :: "request list"
  appended :: "(pyval \<times> string) list"

datatype ref = BpOptions | Obj nat

fun deref :: "world \<Rightarrow> ref \<Rightarrow> pydict" where
  "deref w BpOptions = bpOptions w"
| "deref w (Obj n) = objects w ! n"

text \<open>A new dictionary object: its address is the next free one.\<close>

definition alloc :: "pydict \<Rightarrow> world \<Rightarrow> ref \<times> world" where
  "alloc d w = (Obj (length (objects w)), w\<lparr>objects := objects w @ [d]\<rparr>)"

text \<open>\<open>r[k] = v\<close> on the object that \<open>r\<close> refers to.\<close>

fun store_setitem :: "ref \<Rightarrow> ustring \<Rightarrow> pyval \<Rightarrow> world \<Rightarrow> world" where
  "store_setitem BpOptions k v w = w\<lparr>bpOptions := dict_setitem (bpOptions w) k v\<rparr>"
| "store_setitem (Obj n) k v w =
     w\<lparr>objects := (objects w)[n := dict_setitem (objects w ! n) k v]\<rparr>"

subsection \<open>\<open>str\<close>, string concatenation\<close>

function digits :: "nat \<Rightarrow> string" where
  "digits n = (if n < 10 then [char_of (48 + n)] else digits (n div 10) @ [char_of (48 + n mod 10)])"
  by pat_completeness auto
termination
  by (relation "measure id") auto

definition str_int :: "int \<Rightarrow> string" where
  "str_int i = (if i < 0 then CHR ''-'' # digits (nat (- i)) else digits (nat i))"

text \<open>\<open>str(v)\<close>, given \<open>repr\<close>: of a container it is its \<open>repr\<close>.\<close>

fun py_str :: "(pyval \<Rightarrow> string) \<Rightarrow> pyval \<Rightarrow> error + string" where
  "py_str r (PStr s) = Inr s"
| "py_str r (PUni u) = encode_ascii u"
| "py_str r PNone = Inr ''None''"
| "py_str r (PBool b) = Inr (if b then ''True'' else ''False'')"
| "py_str r (PInt i) = Inr (str_int i)"
| "py_str r v = Inr (r v)"

text \<open>\<open>s + v\<close> for a byte string \<open>s\<close>.\<close>

fun str_add :: "string \<Rightarrow> pyval \<Rightarrow> error + pyval" where
  "str_add s (PStr t) = Inr (PStr (s @ t))"
| "str_add s (PUni u) =
     (if is_ascii (utext s) then Inr (PUni (utext s @ u)) else Inl UnicodeDecodeError)"
| "str_add s _ = Inl TypeError"

text \<open>\<open>base64.b64encode(v)\<close>\<close>

fun py_b64encode :: "pyval \<Rightarrow> error + string" where
  "py_b64encode (PStr s) = Inr (butlast (b2a_base64 s))"
| "py_b64encode (PUni u) =
     (case encode_ascii u of Inl e \<Rightarrow> Inl e | Inr s \<Rightarrow> Inr (butlast (b2a_base64 s)))"
| "py_b64encode _ = Inl TypeError"

section \<open>The functions of bp\_lib.py\<close>

subsection \<open>bpHash\<close>

text \<open>
  \<open>hmac.new(key, data, sha256)\<close>: the key is a byte string (a unicode key longer than the
  block is hashed first, a shorter one is a TypeError); the data is a byte string, an
  ASCII unicode string, or None for no data.
\<close>

fun hmac_key :: "pyval \<Rightarrow> error + string" where
  "hmac_key (PStr k) = Inr k"
| "hmac_key (PUni u) = (if length u > 64 then encode_ascii u else Inl TypeError)"
| "hmac_key _ = Inl TypeError"

fun hmac_data :: "pyval \<Rightarrow> error + string" where
  "hmac_data (PStr d) = Inr d"
| "hmac_data (PUni u) = encode_ascii u"
| "hmac_data PNone = Inr []"
| "hmac_data _ = Inl TypeError"

definition bpHash :: "extern \<Rightarrow> pyval \<Rightarrow> pyval \<Rightarrow> error + pyval" where
  "bpHash E data key =
     (case hmac_key key of Inl e \<Rightarrow> Inl e
      | Inr k \<Rightarrow>
         (case hmac_data data of Inl e \<Rightarrow> Inl e
          | Inr d \<Rightarrow> Inr (PStr (butlast (b2a_base64 (hmac_sha256 E k d))))))"

subsection \<open>sanitize\_dict\<close>

text \<open>
  A string becomes a byte string; a mapping is rebuilt from its sanitized items (each
  item is a tuple, so its key and its value are both sanitized); a list or a tuple is
  rebuilt from its sanitized elements; anything else is returned as it is.
\<close>

fun sanitize_dict :: "pyval \<Rightarrow> error + pyval"
  and sanitize_seq :: "pyval list \<Rightarrow> error + pyval list"
  and sanitize_items :: "(ustring \<times> pyval) list \<Rightarrow> error + (ustring \<times> pyval) list" where
  "sanitize_dict (PStr s) = Inr (PStr s)"
| "sanitize_dict (PUni u) =
     (case encode_ascii u of Inl e \<Rightarrow> Inl e | Inr s \<Rightarrow> Inr (PStr s))"
| "sanitize_dict (PDict d) =
     (case sanitize_items d of Inl e \<Rightarrow> Inl e | Inr d' \<Rightarrow> Inr (PDict (dict_of_items d')))"
| "sanitize_dict (PList xs) =
     (case sanitize_seq xs of Inl e \<Rightarrow> Inl e | Inr ys \<Rightarrow> Inr (PList ys))"
| "sanitize_dict (PTuple xs) =
     (case sanitize_seq xs of Inl e \<Rightarrow> Inl e | Inr ys \<Rightarrow> Inr (PTuple ys))"
| "sanitize_dict PNone = Inr PNone"
| "sanitize_dict (PBool b) = Inr (PBool b)"
| "sanitize_dict (PInt i) = Inr (PInt i)"
| "sanitize_seq [] = Inr []"
| "sanitize_seq (x # xs) =
     (case sanitize_dict x of Inl e \<Rightarrow> Inl e
      | Inr y \<Rightarrow> (case sanitize_seq xs of Inl e \<Rightarrow> Inl e | Inr ys \<Rightarrow> Inr (y # ys)))"
| "sanitize_items [] = Inr []"
| "sanitize_items (kv # rest) =
     (if \<not> is_ascii (fst kv) then Inl UnicodeEncodeError
      else (case sanitize_dict (snd kv) of Inl e \<Rightarrow> Inl e
        | Inr v \<Rightarrow>
           (case sanitize_items rest of Inl e \<Rightarrow> Inl e
            | Inr rest' \<Rightarrow> Inr ((fst kv, v) # rest'))))"

subsection \<open>bpLog\<close>

definition bpLog :: "extern \<Rightarrow> pyval \<Rightarrow> world \<Rightarrow> (error + pyval) \<times> world" where
  "bpLog E contents w =
     (case dict_getitem (bpOptions w) (utext ''logFile'') of
        Inl e \<Rightarrow> (Inl e, w)
      | Inr log_file \<Rightarrow>
         (case (if \<not> py_eq_str log_file []
                then str_add (module_path E) log_file
                else Inr (PStr (module_path E @ ''/bplog.txt''))) of
            Inl e \<Rightarrow> (Inl e, w)
          | Inr file_name \<Rightarrow>
             if \<not> can_append E file_name then (Inl IOError, w)
             else
               (let w1 = w\<lparr>appended := appended w @ [(file_name, strftime E @ '': '')]\<rparr>
                in case json_dumps E contents of
                     Inl e \<Rightarrow> (Inl e, w1)
                   | Inr js \<Rightarrow>
                      (Inr PNone,
                       w1\<lparr>appended := appended w1 @ [(file_name, js @ [CHR 0x0A])]\<rparr>))))"

subsection \<open>bpCurl\<close>

definition blank_error :: pyval where
  "blank_error = PDict [(utext ''error'', PStr ''url or apiKey were blank.'')]"

definition curl_headers :: "string \<Rightarrow> (string \<times> string) list" where
  "curl_headers uname =
     [(''Content-Type'', ''application/json''),
      (''Authorization'', ''Basic '' @ uname),
      (''X-BitPay-Plugin-Info'', ''pythonlib1.1'')]"

text \<open>The body of the request: \<open>urllib.urlencode(json.loads(post))\<close> when \<open>post\<close> is
  true, and none (a GET) otherwise.\<close>

definition curl_body :: "extern \<Rightarrow> pyval \<Rightarrow> error + string option" where
  "curl_body E post =
     (if truthy post then
        (case json_loads E post of Inl e \<Rightarrow> Inl e
         | Inr j \<Rightarrow> (case urlencode E j of Inl e \<Rightarrow> Inl e | Inr b \<Rightarrow> Inr (Some b)))
      else Inr None)"

text \<open>The exceptions that \<open>except ValueError\<close> catches: ValueError and its subclasses.\<close>

fun is_ValueError :: "error \<Rightarrow> bool" where
  "is_ValueError ValueError = True"
| "is_ValueError UnicodeDecodeError = True"
| "is_ValueError UnicodeEncodeError = True"
| "is_ValueError _ = False"

text \<open>What follows \<open>response_string = opener.open(...).read()\<close>.\<close>

definition curl_decode :: "extern \<Rightarrow> string \<Rightarrow> world \<Rightarrow> (error + pyval) \<times> world" where
  "curl_decode E response_string w =
     (case json_loads E (PStr response_string) of
        Inr response \<Rightarrow> (Inr response, w)
      | Inl e \<Rightarrow>
         if \<not> is_ValueError e then (Inl e, w)
         else
           (let response = PDict [(utext ''error'', PStr response_string)]
            in case dict_getitem (bpOptions w) (utext ''useLogging'') of
                 Inl e' \<Rightarrow> (Inl e', w)
               | Inr use_logging \<Rightarrow>
                  if truthy use_logging then
                    (case bpLog E (PStr (''Error: '' @ response_string)) w of
                       (Inl e', w') \<Rightarrow> (Inl e', w')
                     | (Inr _, w') \<Rightarrow> (Inr response, w'))
                  else (Inr response, w)))"

definition curl_open :: "extern \<Rightarrow> pyval \<Rightarrow> pyval \<Rightarrow> pyval \<Rightarrow> world \<Rightarrow> (error + pyval) \<times> world" where
  "curl_open E url api_key post w =
     (case py_b64encode api_key of
        Inl e \<Rightarrow> (Inl e, w)
      | Inr uname \<Rightarrow>
         (case curl_body E post of
            Inl e \<Rightarrow> (Inl e, w)
          | Inr body \<Rightarrow>
             (let rq = \<lparr>req_url = url, req_headers = curl_headers uname, req_body = body\<rparr>;
                  w1 = w\<lparr>sent := sent w @ [rq]\<rparr>
              in case respond E rq of
                   Inl e \<Rightarrow> (Inl e, w1)
                 | Inr response_string \<Rightarrow> curl_decode E response_string w1)))"

definition bpCurl :: "extern \<Rightarrow> pyval \<Rightarrow> pyval \<Rightarrow> pyval \<Rightarrow> world \<Rightarrow> (error + pyval) \<times> world" where
  "bpCurl E url api_key post w =
     (case py_strip url of
        Inl e \<Rightarrow> (Inl e, w)
      | Inr u \<Rightarrow>
         if \<not> truthy u then (Inr blank_error, w)
         else
           (case py_strip api_key of
              Inl e \<Rightarrow> (Inl e, w)
            | Inr k \<Rightarrow>
               if \<not> truthy k then (Inr blank_error, w)
               else curl_open E url api_key post w))"

subsection \<open>bpCreateInvoice\<close>

definition post_options :: "ustring list" where
  "post_options = map utext
     [''orderID'', ''itemDesc'', ''itemCode'', ''notificationEmail'', ''notificationURL'',
      ''redirectURL'', ''posData'', ''price'', ''currency'', ''physical'',
      ''fullNotifications'', ''transactionSpeed'', ''buyerName'', ''buyerAddress1'',
      ''buyerAddress2'', ''buyerCity'', ''buyerState'', ''buyerZip'', ''buyerEmail'',
      ''buyerPhone'']"

definition pos_limit_error :: pyval where
  "pos_limit_error =
     PDict [(utext ''error'',
             PStr ''posData > 100 character limit. Are you using the posData hash?'')]"

text \<open>\<open>if not options: options = dict()\<close>, then \<open>options.items()\<close>, a method of
  dictionaries only.\<close>

fun options_items :: "pyval \<Rightarrow> error + (ustring \<times> pyval) list" where
  "options_items (PDict d) = Inr d"
| "options_items v = (if truthy v then Inl AttributeError else Inr [])"

text \<open>\<open>str(sanitize_dict(x))\<close>, the text that is signed.\<close>

definition str_sanitized :: "extern \<Rightarrow> pyval \<Rightarrow> error + string" where
  "str_sanitized E x =
     (case sanitize_dict x of Inl e \<Rightarrow> Inl e
      | Inr clean \<Rightarrow> py_str (py_repr E) clean)"

text \<open>\<open>pos['hash'] = bpHash(str(sanitize_dict(pos_data)), options['apiKey'])\<close>\<close>

definition set_pos_hash :: "extern \<Rightarrow> pyval \<Rightarrow> ref \<Rightarrow> ref \<Rightarrow> world \<Rightarrow> error + world" where
  "set_pos_hash E pos_data options pos w =
     (case str_sanitized E pos_data of Inl e \<Rightarrow> Inl e
      | Inr data \<Rightarrow>
         (case dict_getitem (deref w options) (utext ''apiKey'') of Inl e \<Rightarrow> Inl e
          | Inr key \<Rightarrow>
             (case bpHash E (PStr data) key of Inl e \<Rightarrow> Inl e
              | Inr h \<Rightarrow> Inr (store_setitem pos (utext ''hash'') h w))))"

text \<open>One round of the loop \<open>for o in post_options: if o in options: pos[o] = options[o]\<close>.\<close>

definition copy_option :: "ref \<Rightarrow> ref \<Rightarrow> world \<Rightarrow> ustring \<Rightarrow> world" where
  "copy_option options pos w opt =
     (case map_of (deref w options) opt of
        None \<Rightarrow> w
      | Some v \<Rightarrow> store_setitem pos opt v w)"

text \<open>\<open>options['orderID'] = order_id\<close>, \<open>options['price'] = price\<close> and the loop.\<close>

definition fill_request :: "ref \<Rightarrow> ref \<Rightarrow> pyval \<Rightarrow> pyval \<Rightarrow> world \<Rightarrow> world" where
  "fill_request options pos order_id price w =
     foldl (copy_option options pos)
       (store_setitem options (utext ''price'') price
          (store_setitem options (utext ''orderID'') order_id w))
       post_options"

text \<open>
  The function up to the end of that loop.  It raises (\<open>Inl e\<close>), returns early
  (\<open>Inr (Inl v)\<close>), or goes on with the references held by the variables \<open>options\<close> and
  \<open>pos\<close>; the dictionary that \<open>pos\<close> refers to is then the body of the request.
\<close>

definition invoice_request ::
  "extern \<Rightarrow> pyval \<Rightarrow> pyval \<Rightarrow> pyval \<Rightarrow> pyval \<Rightarrow> world \<Rightarrow> (error + pyval + ref \<times> ref) \<times> world" where
  "invoice_request E order_id price pos_data options0 w =
     (case options_items options0 of
        Inl e \<Rightarrow> (Inl e, w)
      | Inr items \<Rightarrow>
         (let (options, w1) = alloc (dict_of_items (bpOptions w @ items)) w;
              (pos, w2) = alloc [(utext ''posData'', pos_data)] w1
          in case dict_getitem (bpOptions w2) (utext ''verifyPos'') of
               Inl e \<Rightarrow> (Inl e, w2)
             | Inr verify_pos \<Rightarrow>
                (case (if truthy verify_pos then set_pos_hash E pos_data options pos w2
                       else Inr w2) of
                   Inl e \<Rightarrow> (Inl e, w2)
                 | Inr w3 \<Rightarrow>
                    (case json_dumps E (PDict (deref w3 pos)) of
                       Inl e \<Rightarrow> (Inl e, w3)
                     | Inr envelope \<Rightarrow>
                        (let w4 = store_setitem options (utext ''posData'') (PStr envelope) w3
                         in if length envelope > 100 then (Inr (Inl pos_limit_error), w4)
                            else (Inr (Inr (options, pos)),
                                  fill_request options pos order_id price w4))))))"

text \<open>The four calls of bpLog when logging is on.\<close>

fun log_each :: "extern \<Rightarrow> pyval list \<Rightarrow> world \<Rightarrow> (error + pyval) \<times> world" where
  "log_each E [] w = (Inr PNone, w)"
| "log_each E (c # cs) w =
     (case bpLog E c w of
        (Inl e, w') \<Rightarrow> (Inl e, w')
      | (Inr _, w') \<Rightarrow> log_each E cs w')"

text \<open>From \<open>pos = json.dumps(pos)\<close> to the end.\<close>

definition invoice_send :: "extern \<Rightarrow> ref \<Rightarrow> ref \<Rightarrow> world \<Rightarrow> (error + pyval) \<times> world" where
  "invoice_send E options pos w =
     (case json_dumps E (PDict (deref w pos)) of
        Inl e \<Rightarrow> (Inl e, w)
      | Inr body \<Rightarrow>
         (case dict_getitem (deref w options) (utext ''apiKey'') of
            Inl e \<Rightarrow> (Inl e, w)
          | Inr key \<Rightarrow>
             (case bpCurl E (PStr ''https://bitpay.com/api/invoice/'') key (PStr body) w of
                (Inl e, w') \<Rightarrow> (Inl e, w')
              | (Inr response, w') \<Rightarrow>
                 (case dict_getitem (bpOptions w') (utext ''useLogging'') of
                    Inl e \<Rightarrow> (Inl e, w')
                  | Inr use_logging \<Rightarrow>
                     if truthy use_logging then
                       (case log_each E [PStr ''Create Invoice: '', PStr body,
                                         PStr ''Response: '', response] w' of
                          (Inl e, w'') \<Rightarrow> (Inl e, w'')
                        | (Inr _, w'') \<Rightarrow> (Inr response, w''))
                     else (Inr response, w')))))"

definition bpCreateInvoice ::
  "extern \<Rightarrow> pyval \<Rightarrow> pyval \<Rightarrow> pyval \<Rightarrow> pyval \<Rightarrow> world \<Rightarrow> (error + pyval) \<times> world" where
  "bpCreateInvoice E order_id price pos_data options0 w =
     (case invoice_request E order_id price pos_data options0 w of
        (Inl e, w') \<Rightarrow> (Inl e, w')
      | (Inr (Inl v), w') \<Rightarrow> (Inr v, w')
      | (Inr (Inr (options, pos)), w') \<Rightarrow> invoice_send E options pos w')"

text \<open>
  The text that line 145 assigns to \<open>options['posData']\<close>, as a function of the
  arguments and the configuration: the JSON text of \<open>{"posData": pos_data}\<close>, with the
  entry \<open>hash\<close> added first when the configuration asks for verification.
\<close>

definition pos_envelope :: "extern \<Rightarrow> world \<Rightarrow> pyval \<Rightarrow> pyval \<Rightarrow> error + string" where
  "pos_envelope E w pos_data options0 =
     (case options_items options0 of
        Inl e \<Rightarrow> Inl e
      | Inr items \<Rightarrow>
         (case dict_getitem (bpOptions w) (utext ''verifyPos'') of
            Inl e \<Rightarrow> Inl e
          | Inr verify_pos \<Rightarrow>
             if truthy verify_pos then
               (case str_sanitized E pos_data of Inl e \<Rightarrow> Inl e
                | Inr data \<Rightarrow>
                   (case dict_getitem (dict_of_items (bpOptions w @ items)) (utext ''apiKey'') of
                      Inl e \<Rightarrow> Inl e
                    | Inr key \<Rightarrow>
                       (case bpHash E (PStr data) key of Inl e \<Rightarrow> Inl e
                        | Inr h \<Rightarrow>
                           json_dumps E
                             (PDict [(utext ''posData'', pos_data), (utext ''hash'', h)]))))
             else json_dumps E (PDict [(utext ''posData'', pos_data)])))"

text \<open>
  The body of the request: the dictionary that \<open>pos\<close> refers to when line 163
  serializes it for bpCurl, if the function gets there.
\<close>

definition request_body :: "(error + pyval + ref \<times> ref) \<times> world \<Rightarrow> pydict option" where
  "request_body r =
     (case r of
        (Inr (Inr (options, pos)), w') \<Rightarrow> Some (deref w' pos)
      | _ \<Rightarrow> None)"

subsection \<open>bpVerifyNotification\<close>

fun is_prefix :: "'a list \<Rightarrow> 'a list \<Rightarrow> bool" where
  "is_prefix [] ys = True"
| "is_prefix (x # xs) [] = False"
| "is_prefix (x # xs) (y # ys) = (x = y \<and> is_prefix xs ys)"

fun has_substring :: "'a list \<Rightarrow> 'a list \<Rightarrow> bool" where
  "has_substring xs [] = (xs = [])"
| "has_substring xs (y # ys) = (is_prefix xs (y # ys) \<or> has_substring xs ys)"

text \<open>\<open>s in v\<close> for an ASCII byte string \<open>s\<close>: a key of a dictionary, an element of a
  list, a substring of a string; other values are not iterable.\<close>

fun py_contains :: "pyval \<Rightarrow> string \<Rightarrow> error + bool" where
  "py_contains (PDict d) s = Inr (dict_contains d (utext s))"
| "py_contains (PList xs) s = Inr (list_ex (\<lambda>x. py_eq_str x s) xs)"
| "py_contains (PTuple xs) s = Inr (list_ex (\<lambda>x. py_eq_str x s) xs)"
| "py_contains (PStr t) s = Inr (has_substring s t)"
| "py_contains (PUni u) s = Inr (has_substring (utext s) u)"
| "py_contains _ s = Inl TypeError"

text \<open>\<open>v[s]\<close> for a string \<open>s\<close>: only a dictionary is indexed by a string.\<close>

fun py_getitem :: "pyval \<Rightarrow> ustring \<Rightarrow> error + pyval" where
  "py_getitem (PDict d) k = dict_getitem d k"
| "py_getitem _ k = Inl TypeError"

text \<open>\<open>v[s] = x\<close> on a freshly parsed value \<open>v\<close>, which no other variable refers to:
  the updated value.\<close>

fun py_setitem :: "pyval \<Rightarrow> ustring \<Rightarrow> pyval \<Rightarrow> error + pyval" where
  "py_setitem (PDict d) k x = Inr (PDict (dict_setitem d k x))"
| "py_setitem _ k x = Inl TypeError"

text \<open>The right operand of the \<open>and\<close>:
  \<open>pos_data['hash'] != bpHash(str(sanitize_dict(pos_data['posData'])), api_key)\<close>.\<close>

definition bad_hash :: "extern \<Rightarrow> pyval \<Rightarrow> pyval \<Rightarrow> error + bool" where
  "bad_hash E pos_data api_key =
     (case py_getitem pos_data (utext ''hash'') of Inl e \<Rightarrow> Inl e
      | Inr claimed \<Rightarrow>
         (case py_getitem pos_data (utext ''posData'') of Inl e \<Rightarrow> Inl e
          | Inr inner \<Rightarrow>
             (case str_sanitized E inner of Inl e \<Rightarrow> Inl e
              | Inr data \<Rightarrow>
                 (case bpHash E (PStr data) api_key of Inl e \<Rightarrow> Inl e
                  | Inr (PStr h) \<Rightarrow> Inr (\<not> py_eq_str claimed h)
                  | Inr _ \<Rightarrow> Inl TypeError))))"

text \<open>After the key is chosen and the payload found present.\<close>

definition verify_payload :: "extern \<Rightarrow> world \<Rightarrow> pyval \<Rightarrow> pyval \<Rightarrow> error + pyval" where
  "verify_payload E w api_key post =
     (case json_loads E post of Inl e \<Rightarrow> Inl e
      | Inr json_data \<Rightarrow>
         (case py_contains json_data ''posData'' of Inl e \<Rightarrow> Inl e
          | Inr False \<Rightarrow> Inr (PStr ''no posData'')
          | Inr True \<Rightarrow>
             (case py_getitem json_data (utext ''posData'') of Inl e \<Rightarrow> Inl e
              | Inr outer \<Rightarrow>
                 (case json_loads E outer of Inl e \<Rightarrow> Inl e
                  | Inr pos_data \<Rightarrow>
                     (case dict_getitem (bpOptions w) (utext ''verifyPos'') of Inl e \<Rightarrow> Inl e
                      | Inr verify_pos \<Rightarrow>
                         (case (if truthy verify_pos then bad_hash E pos_data api_key
                                else Inr False) of
                            Inl e \<Rightarrow> Inl e
                          | Inr True \<Rightarrow> Inr (PStr ''authentication failed (bad hash)'')
                          | Inr False \<Rightarrow>
                             (case py_getitem pos_data (utext ''posData'') of Inl e \<Rightarrow> Inl e
                              | Inr inner \<Rightarrow> py_setitem json_data (utext ''posData'') inner)))))))"

text \<open>\<open>if not api_key: api_key = bp_options.bpOptions['apiKey']\<close>\<close>

definition default_key :: "world \<Rightarrow> pyval \<Rightarrow> error + pyval" where
  "default_key w api_key =
     (if \<not> truthy api_key then dict_getitem (bpOptions w) (utext ''apiKey'') else Inr api_key)"

definition bpVerifyNotification :: "extern \<Rightarrow> world \<Rightarrow> pyval \<Rightarrow> pyval \<Rightarrow> error + pyval" where
  "bpVerifyNotification E w api_key0 post =
     (case default_key w api_key0 of
        Inl e \<Rightarrow> Inl e
      | Inr api_key \<Rightarrow>
         if \<not> truthy post then Inr (PStr ''No post data'')
         else verify_payload E w api_key post)"

subsection \<open>bpGetInvoice\<close>

text \<open>The two assignments to \<open>response['posData']\<close>.\<close>

definition unwrap_posData :: "extern \<Rightarrow> pyval \<Rightarrow> error + pyval" where
  "unwrap_posData E response =
     (case py_getitem response (utext ''posData'') of Inl e \<Rightarrow> Inl e
      | Inr outer \<Rightarrow>
         (case json_loads E outer of Inl e \<Rightarrow> Inl e
          | Inr envelope \<Rightarrow>
             (case py_setitem response (utext ''posData'') envelope of Inl e \<Rightarrow> Inl e
              | Inr response1 \<Rightarrow>
                 (case py_getitem response1 (utext ''posData'') of Inl e \<Rightarrow> Inl e
                  | Inr envelope1 \<Rightarrow>
                     (case py_getitem envelope1 (utext ''posData'') of Inl e \<Rightarrow> Inl e
                      | Inr inner \<Rightarrow> py_setitem response1 (utext ''posData'') inner)))))"

definition bpGetInvoice :: "extern \<Rightarrow> pyval \<Rightarrow> pyval \<Rightarrow> world \<Rightarrow> (error + pyval) \<times> world" where
  "bpGetInvoice E invoice_id api_key0 w =
     (case default_key w api_key0 of
        Inl e \<Rightarrow> (Inl e, w)
      | Inr api_key \<Rightarrow>
         (case str_add ''https://bitpay.com/api/invoice/'' invoice_id of
            Inl e \<Rightarrow> (Inl e, w)
          | Inr url \<Rightarrow>
             (case bpCurl E url api_key (PBool False) w of
                (Inl e, w') \<Rightarrow> (Inl e, w')
              | (Inr response, w') \<Rightarrow> (unwrap_posData E response, w'))))"

subsection \<open>bpDecodeResponse\<close>

definition bpDecodeResponse :: "extern \<Rightarrow> pyval \<Rightarrow> error + pyval" where
  "bpDecodeResponse E response =
     (if \<not> truthy response then Inr (PStr ''Error: decodeResponse expects a string parameter.'')
      else json_loads E response)"


section \<open>Notions used to state the properties\<close>

subsection \<open>Base64 as RFC 4648 words it\<close>

text \<open>
  RFC 4648, section 4, independently of the table arithmetic of \<open>b64_groups\<close>: the input
  is a stream of bits, eight to a byte, the most significant first; it is cut into groups
  of six bits, the last group filled with zero bits on the right; each group, read as a
  number, selects a character (\<open>A\<close> to \<open>Z\<close>, \<open>a\<close> to \<open>z\<close>, \<open>0\<close> to \<open>9\<close>, \<open>+\<close>, \<open>/\<close>); the
  text is filled with \<open>=\<close> to a multiple of four characters.
\<close>

definition byte_bits :: "nat \<Rightarrow> bool list" where
  "byte_bits b = map (\<lambda>i. odd (b div 2 ^ i)) [7, 6, 5, 4, 3, 2, 1, 0]"

definition bits_value :: "bool list \<Rightarrow> nat" where
  "bits_value bs = foldl (\<lambda>n b. 2 * n + (if b then 1 else 0)) 0 bs"

function sextets :: "bool list \<Rightarrow> nat list" where
  "sextets bs =
     (if bs = [] then []
      else bits_value (take 6 (bs @ replicate 5 False)) # sextets (drop 6 bs))"
  by pat_completeness auto
termination
  by (relation "measure length") auto

declare sextets.simps [simp del]

definition rfc4648_char :: "nat \<Rightarrow> char" where
  "rfc4648_char v =
     (if v < 26 then char_of (65 + v)
      else if v < 52 then char_of (71 + v)
      else if v < 62 then char_of (v - 4)
      else if v = 62 then CHR ''+'' else CHR ''/'')"

definition rfc4648_base64 :: "string \<Rightarrow> string" where
  "rfc4648_base64 s =
     (let cs = map rfc4648_char (sextets (concat (map (\<lambda>c. byte_bits (of_char c)) s)))
      in cs @ replicate ((4 - length cs mod 4) mod 4) (CHR ''=''))"

subsection \<open>The envelope and the fields of a request\<close>

text \<open>The dictionary \<open>pos\<close> before line 145: the posData alone, or with the hash.\<close>

fun envelope_dict :: "pyval \<Rightarrow> pyval option \<Rightarrow> pydict" where
  "envelope_dict x None = [(utext ''posData'', x)]"
| "envelope_dict x (Some h) = [(utext ''posData'', x), (utext ''hash'', h)]"

text \<open>The merged options with the three entries that lines 145, 152 and 153 assign.\<close>

definition request_fields :: "pydict \<Rightarrow> pyval \<Rightarrow> pyval \<Rightarrow> string \<Rightarrow> ustring \<rightharpoonup> pyval" where
  "request_fields merged order_id price envelope =
     (map_of merged)(utext ''posData'' \<mapsto> PStr envelope, utext ''orderID'' \<mapsto> order_id,
                     utext ''price'' \<mapsto> price)"


section \<open>The Python library functions, for running the code\<close>

text \<open>
  Definitions of \<open>json.dumps\<close>, \<open>json.loads\<close>, \<open>repr\<close> and \<open>urllib.urlencode\<close> as
  Python 2.7 computes them on the values of the model (numbers with a fraction or an
  exponent are not values of the model, and \<open>json.loads\<close> refuses them here).  The theorems
  about bp\_lib.py do not depend on them: they hold for every environment.
\<close>


subsection \<open>UTF-8\<close>

definition is_cont :: "nat \<Rightarrow> bool" where
  "is_cont b = (128 \<le> b \<and> b < 192)"

fun utf8_decode :: "nat list \<Rightarrow> error + ustring" where
  "utf8_decode [] = Inr []"
| "utf8_decode (b # bs) =
     (if b < 128 then
        (case utf8_decode bs of Inl e \<Rightarrow> Inl e | Inr u \<Rightarrow> Inr (b # u))
      else if 194 \<le> b \<and> b < 224 then
        (case bs of
           c1 # r \<Rightarrow>
             if is_cont c1 then
               (case utf8_decode r of Inl e \<Rightarrow> Inl e
                | Inr u \<Rightarrow> Inr (((b - 192) * 64 + (c1 - 128)) # u))
             else Inl UnicodeDecodeError
         | _ \<Rightarrow> Inl UnicodeDecodeError)
      else if 224 \<le> b \<and> b < 240 then
        (case bs of
           c1 # c2 # r \<Rightarrow>
             if is_cont c1 \<and> is_cont c2 \<and> (if b = 224 then 160 \<le> c1 else True) then
               (case utf8_decode r of Inl e \<Rightarrow> Inl e
                | Inr u \<Rightarrow> Inr (((b - 224) * 4096 + (c1 - 128) * 64 + (c2 - 128)) # u))
             else Inl UnicodeDecodeError
         | _ \<Rightarrow> Inl UnicodeDecodeError)
      else if 240 \<le> b \<and> b < 245 then
        (case bs of
           c1 # c2 # c3 # r \<Rightarrow>
             if is_cont c1 \<and> is_cont c2 \<and> is_cont c3 \<and> (if b = 240 then 144 \<le> c1 else True)
                \<and> (if b = 244 then c1 < 144 else True) then
               (case utf8_decode r of Inl e \<Rightarrow> Inl e
                | Inr u \<Rightarrow>
                   Inr (((b - 240) * 262144 + (c1 - 128) * 4096 + (c2 - 128) * 64 + (c3 - 128)) # u))
             else Inl UnicodeDecodeError
         | _ \<Rightarrow> Inl UnicodeDecodeError)
      else Inl UnicodeDecodeError)"

subsection \<open>json.dumps\<close>

definition hex_digit :: "nat \<Rightarrow> nat" where
  "hex_digit d = (if d < 10 then 48 + d else 87 + d)"

definition hex4 :: "nat \<Rightarrow> ustring" where
  "hex4 n = [hex_digit (n div 4096 mod 16), hex_digit (n div 256 mod 16),
             hex_digit (n div 16 mod 16), hex_digit (n mod 16)]"

definition js_escape :: "nat \<Rightarrow> ustring" where
  "js_escape c =
     (if c = 34 then [92, 34]
      else if c = 92 then [92, 92]
      else if c = 10 then [92, 110]
      else if c = 13 then [92, 114]
      else if c = 9 then [92, 116]
      else if c = 8 then [92, 98]
      else if c = 12 then [92, 102]
      else if 32 \<le> c \<and> c < 127 then [c]
      else if c < 65536 then [92, 117] @ hex4 c
      else [92, 117] @ hex4 (55296 + (c - 65536) div 1024)
           @ [92, 117] @ hex4 (56320 + (c - 65536) mod 1024))"

definition js_string :: "ustring \<Rightarrow> string" where
  "js_string u = [CHR 0x22] @ map char_of (concat (map js_escape u)) @ [CHR 0x22]"

fun js_dumps :: "pyval \<Rightarrow> error + string"
  and js_elements :: "pyval list \<Rightarrow> error + string"
  and js_members :: "(ustring \<times> pyval) list \<Rightarrow> error + string" where
  "js_dumps PNone = Inr ''null''"
| "js_dumps (PBool b) = Inr (if b then ''true'' else ''false'')"
| "js_dumps (PInt i) = Inr (str_int i)"
| "js_dumps (PStr s) =
     (case utf8_decode (utext s) of Inl e \<Rightarrow> Inl e | Inr u \<Rightarrow> Inr (js_string u))"
| "js_dumps (PUni u) = Inr (js_string u)"
| "js_dumps (PList xs) =
     (case js_elements xs of Inl e \<Rightarrow> Inl e | Inr t \<Rightarrow> Inr (''['' @ t @ '']''))"
| "js_dumps (PTuple xs) =
     (case js_elements xs of Inl e \<Rightarrow> Inl e | Inr t \<Rightarrow> Inr (''['' @ t @ '']''))"
| "js_dumps (PDict d) =
     (case js_members d of Inl e \<Rightarrow> Inl e | Inr t \<Rightarrow> Inr (''{'' @ t @ ''}''))"
| "js_elements [] = Inr []"
| "js_elements (x # xs) =
     (case js_dumps x of Inl e \<Rightarrow> Inl e
      | Inr t \<Rightarrow>
         (case js_elements xs of Inl e \<Rightarrow> Inl e
          | Inr r \<Rightarrow> Inr (if xs = [] then t else t @ '', '' @ r)))"
| "js_members [] = Inr []"
| "js_members (kv # rest) =
     (case js_dumps (snd kv) of Inl e \<Rightarrow> Inl e
      | Inr t \<Rightarrow>
         (case js_members rest of Inl e \<Rightarrow> Inl e
          | Inr r \<Rightarrow>
             Inr (js_string (fst kv) @ '': '' @ t @ (if rest = [] then [] else '', '' @ r))))"

subsection \<open>json.loads\<close>

datatype token =
    TLBrace | TRBrace | TLBrack | TRBrack | TColon | TComma
  | TString ustring | TNumber int | TTrue | TFalse | TNull

datatype lex_mode =
    LTop
  | LString ustring
  | LEscape ustring
  | LHex ustring nat nat
  | LMinus
  | LZero
  | LNumber bool nat
  | LLiteral ustring token

definition hex_value :: "nat \<Rightarrow> nat option" where
  "hex_value c =
     (if 48 \<le> c \<and> c \<le> 57 then Some (c - 48)
      else if 97 \<le> c \<and> c \<le> 102 then Some (c - 87)
      else if 65 \<le> c \<and> c \<le> 70 then Some (c - 55)
      else None)"

definition is_digit :: "nat \<Rightarrow> bool" where
  "is_digit c = (48 \<le> c \<and> c \<le> 57)"

definition lex_top :: "nat \<Rightarrow> error + lex_mode \<times> token list" where
  "lex_top c =
     (if c = 32 \<or> c = 9 \<or> c = 10 \<or> c = 13 then Inr (LTop, [])
      else if c = 123 then Inr (LTop, [TLBrace])
      else if c = 125 then Inr (LTop, [TRBrace])
      else if c = 91 then Inr (LTop, [TLBrack])
      else if c = 93 then Inr (LTop, [TRBrack])
      else if c = 58 then Inr (LTop, [TColon])
      else if c = 44 then Inr (LTop, [TComma])
      else if c = 34 then Inr (LString [], [])
      else if c = 45 then Inr (LMinus, [])
      else if c = 48 then Inr (LZero, [])
      else if is_digit c then Inr (LNumber False (c - 48), [])
      else if c = 116 then Inr (LLiteral (utext ''rue'') TTrue, [])
      else if c = 102 then Inr (LLiteral (utext ''alse'') TFalse, [])
      else if c = 110 then Inr (LLiteral (utext ''ull'') TNull, [])
      else Inl ValueError)"

definition lex_escape :: "nat \<Rightarrow> nat option" where
  "lex_escape c =
     (if c = 34 then Some 34 else if c = 92 then Some 92 else if c = 47 then Some 47
      else if c = 98 then Some 8 else if c = 102 then Some 12 else if c = 110 then Some 10
      else if c = 114 then Some 13 else if c = 116 then Some 9 else None)"

definition after_number :: "int \<Rightarrow> nat \<Rightarrow> error + lex_mode \<times> token list" where
  "after_number i c =
     (if c = 46 \<or> c = 101 \<or> c = 69 then Inl ValueError
      else (case lex_top c of Inl e \<Rightarrow> Inl e | Inr (m, ts) \<Rightarrow> Inr (m, TNumber i # ts)))"

fun lex_step :: "lex_mode \<Rightarrow> nat \<Rightarrow> error + lex_mode \<times> token list" where
  "lex_step LTop c = lex_top c"
| "lex_step (LString acc) c =
     (if c = 34 then Inr (LTop, [TString acc])
      else if c = 92 then Inr (LEscape acc, [])
      else if c < 32 then Inl ValueError
      else Inr (LString (acc @ [c]), []))"
| "lex_step (LEscape acc) c =
     (if c = 117 then Inr (LHex acc 4 0, [])
      else (case lex_escape c of None \<Rightarrow> Inl ValueError
            | Some x \<Rightarrow> Inr (LString (acc @ [x]), [])))"
| "lex_step (LHex acc n v) c =
     (case hex_value c of None \<Rightarrow> Inl ValueError
      | Some d \<Rightarrow>
         if n \<le> 1 then Inr (LString (acc @ [16 * v + d]), [])
         else Inr (LHex acc (n - 1) (16 * v + d), []))"
| "lex_step LMinus c =
     (if c = 48 then Inr (LZero, [])
      else if is_digit c then Inr (LNumber True (c - 48), [])
      else Inl ValueError)"
| "lex_step LZero c =
     (if is_digit c then Inl ValueError else after_number 0 c)"
| "lex_step (LNumber neg v) c =
     (if is_digit c then Inr (LNumber neg (10 * v + (c - 48)), [])
      else after_number (if neg then - int v else int v) c)"
| "lex_step (LLiteral rest tok) c =
     (case rest of [] \<Rightarrow> Inl ValueError
      | x # xs \<Rightarrow>
         if c \<noteq> x then Inl ValueError
         else if xs = [] then Inr (LTop, [tok])
         else Inr (LLiteral xs tok, []))"

fun lex_end :: "lex_mode \<Rightarrow> error + token list" where
  "lex_end LTop = Inr []"
| "lex_end LZero = Inr [TNumber 0]"
| "lex_end (LNumber neg v) = Inr [TNumber (if neg then - int v else int v)]"
| "lex_end _ = Inl ValueError"

fun lex :: "lex_mode \<Rightarrow> ustring \<Rightarrow> error + token list" where
  "lex m [] = lex_end m"
| "lex m (c # cs) =
     (case lex_step m c of Inl e \<Rightarrow> Inl e
      | Inr (m', ts) \<Rightarrow> (case lex m' cs of Inl e \<Rightarrow> Inl e | Inr rest \<Rightarrow> Inr (ts @ rest)))"

datatype frame = FArr "pyval list" | FObj pydict ustring

datatype pstate =
    PValue "frame list"
  | PArrFirst "frame list"
  | PArrNext "pyval list" "frame list"
  | PObjFirst "frame list"
  | PObjKey pydict "frame list"
  | PObjColon pydict ustring "frame list"
  | PObjNext pydict "frame list"
  | PDone pyval

fun deliver :: "pyval \<Rightarrow> frame list \<Rightarrow> pstate" where
  "deliver v [] = PDone v"
| "deliver v (FArr items # st) = PArrNext (items @ [v]) st"
| "deliver v (FObj items k # st) = PObjNext (dict_setitem items k v) st"

fun parse_value :: "frame list \<Rightarrow> token \<Rightarrow> error + pstate" where
  "parse_value st (TString s) = Inr (deliver (PUni s) st)"
| "parse_value st (TNumber i) = Inr (deliver (PInt i) st)"
| "parse_value st TTrue = Inr (deliver (PBool True) st)"
| "parse_value st TFalse = Inr (deliver (PBool False) st)"
| "parse_value st TNull = Inr (deliver PNone st)"
| "parse_value st TLBrack = Inr (PArrFirst st)"
| "parse_value st TLBrace = Inr (PObjFirst st)"
| "parse_value st _ = Inl ValueError"

fun parse_step :: "pstate \<Rightarrow> token \<Rightarrow> error + pstate" where
  "parse_step (PValue st) t = parse_value st t"
| "parse_step (PArrFirst st) t =
     (if t = TRBrack then Inr (deliver (PList []) st) else parse_value (FArr [] # st) t)"
| "parse_step (PArrNext items st) t =
     (if t = TComma then Inr (PValue (FArr items # st))
      else if t = TRBrack then Inr (deliver (PList items) st)
      else Inl ValueError)"
| "parse_step (PObjFirst st) t =
     (case t of TRBrace \<Rightarrow> Inr (deliver (PDict []) st)
      | TString k \<Rightarrow> Inr (PObjColon [] k st)
      | _ \<Rightarrow> Inl ValueError)"
| "parse_step (PObjKey items st) t =
     (case t of TString k \<Rightarrow> Inr (PObjColon items k st) | _ \<Rightarrow> Inl ValueError)"
| "parse_step (PObjColon items k st) t =
     (if t = TColon then Inr (PValue (FObj items k # st)) else Inl ValueError)"
| "parse_step (PObjNext items st) t =
     (if t = TComma then Inr (PObjKey items st)
      else if t = TRBrace then Inr (deliver (PDict items) st)
      else Inl ValueError)"
| "parse_step (PDone v) t = Inl ValueError"

fun parse :: "pstate \<Rightarrow> token list \<Rightarrow> error + pyval" where
  "parse (PDone v) [] = Inr v"
| "parse st [] = Inl ValueError"
| "parse st (t # ts) =
     (case parse_step st t of Inl e \<Rightarrow> Inl e | Inr st' \<Rightarrow> parse st' ts)"

definition js_loads_text :: "ustring \<Rightarrow> error + pyval" where
  "js_loads_text u =
     (case lex LTop u of Inl e \<Rightarrow> Inl e | Inr ts \<Rightarrow> parse (PValue []) ts)"

fun js_loads :: "pyval \<Rightarrow> error + pyval" where
  "js_loads (PStr s) =
     (case utf8_decode (utext s) of Inl e \<Rightarrow> Inl e | Inr u \<Rightarrow> js_loads_text u)"
| "js_loads (PUni u) = js_loads_text u"
| "js_loads _ = Inl TypeError"


subsection \<open>repr\<close>

definition hex2 :: "nat \<Rightarrow> ustring" where
  "hex2 n = [hex_digit (n div 16 mod 16), hex_digit (n mod 16)]"

definition repr_quote :: "ustring \<Rightarrow> nat" where
  "repr_quote u = (if 39 \<in> set u \<and> 34 \<notin> set u then 34 else 39)"

definition repr_char :: "nat \<Rightarrow> nat \<Rightarrow> ustring" where
  "repr_char q c =
     (if c = q \<or> c = 92 then [92, c]
      else if c = 9 then [92, 116]
      else if c = 10 then [92, 110]
      else if c = 13 then [92, 114]
      else if 32 \<le> c \<and> c < 127 then [c]
      else if c < 256 then [92, 120] @ hex2 c
      else if c < 65536 then [92, 117] @ hex4 c
      else [92, 85] @ hex4 (c div 65536) @ hex4 (c mod 65536))"

definition repr_text :: "ustring \<Rightarrow> string" where
  "repr_text u =
     map char_of ([repr_quote u] @ concat (map (repr_char (repr_quote u)) u) @ [repr_quote u])"

definition repr_int :: "int \<Rightarrow> string" where
  "repr_int i =
     str_int i @ (if i > 9223372036854775807 \<or> i < - 9223372036854775808 then ''L'' else [])"

fun join :: "string \<Rightarrow> string list \<Rightarrow> string" where
  "join sep [] = []"
| "join sep [x] = x"
| "join sep (x # y # zs) = x @ sep @ join sep (y # zs)"

fun repr :: "pyval \<Rightarrow> string"
  and repr_items :: "(ustring \<times> pyval) list \<Rightarrow> string list" where
  "repr PNone = ''None''"
| "repr (PBool b) = (if b then ''True'' else ''False'')"
| "repr (PInt i) = repr_int i"
| "repr (PStr s) = repr_text (utext s)"
| "repr (PUni u) = CHR ''u'' # repr_text u"
| "repr (PList xs) = ''['' @ join '', '' (map repr xs) @ '']''"
| "repr (PTuple xs) =
     ''('' @ join '', '' (map repr xs) @ (if length xs = 1 then '','' else []) @ '')''"
| "repr (PDict d) = ''{'' @ join '', '' (repr_items d) @ ''}''"
| "repr_items [] = []"
| "repr_items (kv # rest) = (repr_text (fst kv) @ '': '' @ repr (snd kv)) # repr_items rest"

subsection \<open>urllib.urlencode\<close>

definition is_unreserved :: "nat \<Rightarrow> bool" where
  "is_unreserved c = ((48 \<le> c \<and> c \<le> 57) \<or> (65 \<le> c \<and> c \<le> 90) \<or> (97 \<le> c \<and> c \<le> 122)
     \<or> c = 95 \<or> c = 46 \<or> c = 45)"

definition upper_hex_digit :: "nat \<Rightarrow> nat" where
  "upper_hex_digit d = (if d < 10 then 48 + d else 55 + d)"

definition quote_plus_char :: "nat \<Rightarrow> ustring" where
  "quote_plus_char c =
     (if is_unreserved c then [c]
      else if c = 32 then [43]
      else [37, upper_hex_digit (c div 16 mod 16), upper_hex_digit (c mod 16)])"

definition quote_plus :: "string \<Rightarrow> string" where
  "quote_plus s = map char_of (concat (map quote_plus_char (utext s)))"

text \<open>The text of a value in a query: a unicode string is encoded with \<open>?\<close> for what
  ASCII has not, anything else goes through \<open>str\<close>.\<close>

fun query_text :: "pyval \<Rightarrow> error + string" where
  "query_text (PUni u) = Inr (map (\<lambda>c. if c < 128 then char_of c else CHR ''?'') u)"
| "query_text v = py_str repr v"

fun query_pairs :: "(ustring \<times> pyval) list \<Rightarrow> error + string list" where
  "query_pairs [] = Inr []"
| "query_pairs (kv # rest) =
     (case encode_ascii (fst kv) of Inl e \<Rightarrow> Inl e
      | Inr k \<Rightarrow>
         (case query_text (snd kv) of Inl e \<Rightarrow> Inl e
          | Inr v \<Rightarrow>
             (case query_pairs rest of Inl e \<Rightarrow> Inl e
              | Inr r \<Rightarrow> Inr ((quote_plus k @ ''='' @ quote_plus v) # r))))"

fun url_encode :: "pyval \<Rightarrow> error + string" where
  "url_encode (PDict d) =
     (case query_pairs d of Inl e \<Rightarrow> Inl e | Inr ps \<Rightarrow> Inr (join ''&'' ps))"
| "url_encode _ = Inl TypeError"

section \<open>A concrete environment\<close>

text \<open>
  An environment to run the functions in: the JSON, \<open>repr\<close> and \<open>urlencode\<close> functions
  above, a provider that answers every request with the JSON text of one invoice, a log file that
  can be written, and a stand-in for the digest (the key followed by the data), since
  SHA-256 is not computed here.
\<close>

definition demo_invoice :: pyval where
  \<open>demo_invoice =
     PDict [(utext ''id'', PStr ''inv1''), (utext ''status'', PStr ''new''),
            (utext ''posData'', PStr ''{"posData": "cust-ref-42"}'')]\<close>

definition demo_extern :: extern where
  "demo_extern =
     \<lparr>hmac_sha256 = (\<lambda>k d. k @ d),
      json_dumps = js_dumps,
      json_loads = js_loads,
      urlencode = url_encode,
      py_repr = repr,
      respond = (\<lambda>rq. js_dumps demo_invoice),
      can_append = (\<lambda>f. True),
      strftime = ''11-04 01:37:00'',
      module_path = ''/srv/bitpay/bp_lib.py''\<rparr>"

definition demo_options :: pydict where
  "demo_options =
     [(utext ''apiKey'', PStr ''key''), (utext ''verifyPos'', PBool True),
      (utext ''currency'', PStr ''USD''), (utext ''useLogging'', PBool False),
      (utext ''logFile'', PStr [])]"

definition demo_world :: world where
  "demo_world = \<lparr>bpOptions = demo_options, objects = [], sent = [], appended = []\<rparr>"

text \<open>The same configuration with verification of posData switched off.\<close>

definition plain_options :: pydict where
  "plain_options =
     [(utext ''apiKey'', PStr ''key''), (utext ''verifyPos'', PBool False),
      (utext ''currency'', PStr ''USD''), (utext ''useLogging'', PBool False),
      (utext ''logFile'', PStr [])]"

definition plain_world :: world where
  "plain_world = \<lparr>bpOptions = plain_options, objects = [], sent = [], appended = []\<rparr>"

section \<open>Properties\<close>

subsection \<open>Strings\<close>

lemma dropWhile_all_iff: "(\<forall>x\<in>set (dropWhile P xs). P x) \<longleftrightarrow> (\<forall>x\<in>set xs. P x)"
proof
  assume h: "\<forall>x\<in>set (dropWhile P xs). P x"
  have "dropWhile P xs = []"
  proof (rule ccontr)
    assume ne: "dropWhile P xs \<noteq> []"
    then have "\<not> P (hd (dropWhile P xs))" by (rule hd_dropWhile)
    moreover have "hd (dropWhile P xs) \<in> set (dropWhile P xs)" using ne by simp
    ultimately show False using h by blast
  qed
  then show "\<forall>x\<in>set xs. P x" by (simp add: dropWhile_eq_Nil_conv)
next
  assume "\<forall>x\<in>set xs. P x"
  then show "\<forall>x\<in>set (dropWhile P xs). P x"
    by (meson set_dropWhileD)
qed

lemma strip_empty_iff: "strip s = [] \<longleftrightarrow> list_all is_space s"
  by (simp add: strip_def list_all_iff dropWhile_eq_Nil_conv dropWhile_all_iff)

subsection \<open>bpCurl\<close>

text \<open>
  C5.  For every url string and api\_key string of which at least one is empty or
  consists of whitespace only, bpCurl returns the error value
  \<open>{"error": "url or apiKey were blank."}\<close>; it raises nothing, and it sends no
  request: the world after the call is the world before it.
\<close>

theorem bpCurl_blank:
  assumes "list_all is_space url \<or> list_all is_space api_key"
  shows "bpCurl E (PStr url) (PStr api_key) post w =
           (Inr (PDict [(utext ''error'', PStr ''url or apiKey were blank.'')]), w)"
  using assms by (auto simp: bpCurl_def blank_error_def strip_empty_iff)

theorem bpCurl_blank_witness:
  "list_all is_space [CHR 0x20, CHR 0x09] \<and>
   bpCurl demo_extern (PStr [CHR 0x20, CHR 0x09]) (PStr ''key'') (PBool False) demo_world =
     (Inr (PDict [(utext ''error'', PStr ''url or apiKey were blank.'')]), demo_world)"
  using bpCurl_blank [of "[CHR 0x20, CHR 0x09]" "''key''" demo_extern "PBool False" demo_world]
  by (simp add: is_space_def)

end
